theory Spec2Isabelle
  imports Complex_Main "HOL-Library.Sublist"
begin

section \<open>Data model\<close>

text \<open>
  The articles service (\<^verbatim>\<open>ArticlesService\<close>) works on three kinds of objects: the
  entities of the store (users and articles), the request payloads (DTOs) and the
  values it keeps in the cache. Strings are byte strings; a timestamp is kept in the
  textual form in which the payloads carry it, and the store compares timestamps
  through its own cast from text (\<open>toTimestamp\<close> below).
\<close>

record User =
  user_id :: string
  email :: string
  firstName :: string
  lastName :: string

text \<open>
  An article as the service sees it. \<open>author\<close> is the joined relation: \<open>None\<close> when the
  relation was not loaded. The columns \<^verbatim>\<open>createdAt\<close> and \<^verbatim>\<open>updatedAt\<close> are managed
  by the store alone and are never read by the service; they are left out.
\<close>

record Article =
  article_id :: string
  title :: string
  description :: string
  publicationDate :: string
  authorId :: string
  author :: "User option"

record CreateArticleDto =
  dto_title :: string
  dto_description :: string
  dto_publicationDate :: string

text \<open>
  The payload of an update: every property is optional, \<open>None\<close> is a property that is
  unset (\<^verbatim>\<open>undefined\<close>).
\<close>

record UpdateArticleDto =
  upd_title :: "string option"
  upd_description :: "string option"
  upd_publicationDate :: "string option"

text \<open>
  A JavaScript number as far as \<^verbatim>\<open>Math.ceil(total / limit)\<close> can produce one from a
  count and an integer: an integer, \<^verbatim>\<open>Infinity\<close> (a positive count over zero) or
  \<^verbatim>\<open>NaN\<close> (zero over zero).
\<close>

datatype number = Num int | Infinity | NaN

record PageResult =
  data :: "Article list"
  total' :: nat
  page :: int
  limit :: int
  totalPages :: number

text \<open>
  The cache holds whatever the service stored: an article or a page of articles. A read
  returns the value as it is (\<^verbatim>\<open>cachedResult as any\<close>, \<^verbatim>\<open>cachedArticle as Article\<close>
  are casts without a check); both kinds of value are objects, hence truthy.
\<close>

datatype jsvalue = VArticle Article | VPage PageResult

subsection \<open>The query object\<close>

text \<open>
  \<^verbatim>\<open>QueryArticlesDto\<close> is a JavaScript object: its own properties in insertion order.
  Each property carries a value of its declared type or \<^verbatim>\<open>undefined\<close> (\<open>None\<close>); a
  property that is missing from the list is absent from the object. An object has at
  most one property of a name (\<open>wf_query\<close>).
\<close>

datatype qprop =
    Page "int option"
  | Limit "int option"
  | AuthorId "string option"
  | FromDate "string option"
  | ToDate "string option"
  | Search "string option"

type_synonym QueryArticlesDto = "qprop list"

fun prop_name :: "qprop \<Rightarrow> string" where
  "prop_name (Page _) = ''page''"
| "prop_name (Limit _) = ''limit''"
| "prop_name (AuthorId _) = ''authorId''"
| "prop_name (FromDate _) = ''fromDate''"
| "prop_name (ToDate _) = ''toDate''"
| "prop_name (Search _) = ''search''"

definition wf_query :: "QueryArticlesDto \<Rightarrow> bool" where
  "wf_query q = distinct (map prop_name q)"

text \<open>Property reads \<^verbatim>\<open>query.page\<close>, ...: \<open>None\<close> is \<^verbatim>\<open>undefined\<close>.\<close>

fun get_page :: "QueryArticlesDto \<Rightarrow> int option" where
  "get_page [] = None"
| "get_page (Page v # q) = v"
| "get_page (_ # q) = get_page q"

fun get_limit :: "QueryArticlesDto \<Rightarrow> int option" where
  "get_limit [] = None"
| "get_limit (Limit v # q) = v"
| "get_limit (_ # q) = get_limit q"

fun get_authorId :: "QueryArticlesDto \<Rightarrow> string option" where
  "get_authorId [] = None"
| "get_authorId (AuthorId v # q) = v"
| "get_authorId (_ # q) = get_authorId q"

fun get_fromDate :: "QueryArticlesDto \<Rightarrow> string option" where
  "get_fromDate [] = None"
| "get_fromDate (FromDate v # q) = v"
| "get_fromDate (_ # q) = get_fromDate q"

fun get_toDate :: "QueryArticlesDto \<Rightarrow> string option" where
  "get_toDate [] = None"
| "get_toDate (ToDate v # q) = v"
| "get_toDate (_ # q) = get_toDate q"

fun get_search :: "QueryArticlesDto \<Rightarrow> string option" where
  "get_search [] = None"
| "get_search (Search v # q) = v"
| "get_search (_ # q) = get_search q"

text \<open>
  The destructuring
  \<^verbatim>\<open>const { page = 1, limit = 10, authorId, fromDate, toDate, search } = query\<close>:
  a default applies when the property reads \<^verbatim>\<open>undefined\<close>. These six values are the
  effective filters of a request.
\<close>

record Filters =
  f_page :: int
  f_limit :: int
  f_authorId :: "string option"
  f_fromDate :: "string option"
  f_toDate :: "string option"
  f_search :: "string option"

definition destructure :: "QueryArticlesDto \<Rightarrow> Filters" where
  "destructure query =
     \<lparr> f_page = (case get_page query of None \<Rightarrow> 1 | Some p \<Rightarrow> p),
       f_limit = (case get_limit query of None \<Rightarrow> 10 | Some l \<Rightarrow> l),
       f_authorId = get_authorId query,
       f_fromDate = get_fromDate query,
       f_toDate = get_toDate query,
       f_search = get_search query \<rparr>"

section \<open>\<^verbatim>\<open>JSON.stringify\<close> and the cache keys\<close>

text \<open>Decimal digits of a natural number, most significant first.\<close>

fun digits :: "nat \<Rightarrow> string" where
  "digits n =
     (if n < 10 then [''0123456789'' ! n]
      else digits (n div 10) @ [''0123456789'' ! (n mod 10)])"

declare digits.simps [simp del]

definition JSON_number :: "int \<Rightarrow> string" where
  "JSON_number i = (if i < 0 then CHR ''-'' # digits (nat (- i)) else digits (nat i))"

text \<open>
  The quoting of a string: the quotation mark (0x22) and the reverse solidus (0x5C) are
  escaped, the control characters below 0x20 are written by their short escapes or as
  \<^verbatim>\<open>\u00XX\<close>, every other character stands for itself.
\<close>

definition escape_char :: "char \<Rightarrow> string" where
  "escape_char c =
     (if c = CHR 0x22 then [CHR 0x5C, CHR 0x22]
      else if c = CHR 0x5C then [CHR 0x5C, CHR 0x5C]
      else if c = CHR 0x08 then [CHR 0x5C, CHR ''b'']
      else if c = CHR 0x0C then [CHR 0x5C, CHR ''f'']
      else if c = CHR 0x0A then [CHR 0x5C, CHR ''n'']
      else if c = CHR 0x0D then [CHR 0x5C, CHR ''r'']
      else if c = CHR 0x09 then [CHR 0x5C, CHR ''t'']
      else if (of_char c :: nat) < 32 then
        [CHR 0x5C, CHR ''u'', CHR ''0'', CHR ''0'',
         ''0123456789abcdef'' ! (of_char c div 16),
         ''0123456789abcdef'' ! (of_char c mod 16)]
      else [c])"

definition JSON_string :: "string \<Rightarrow> string" where
  "JSON_string s = CHR 0x22 # concat (map escape_char s) @ [CHR 0x22]"

text \<open>
  One property of the object, \<^verbatim>\<open>"name":value\<close>; a property whose value is
  \<^verbatim>\<open>undefined\<close> is left out of the serialization.
\<close>

definition JSON_member :: "string \<Rightarrow> string \<Rightarrow> string" where
  "JSON_member name v = JSON_string name @ CHR '':'' # v"

fun JSON_prop :: "qprop \<Rightarrow> string option" where
  "JSON_prop (Page v) = map_option (\<lambda>n. JSON_member ''page'' (JSON_number n)) v"
| "JSON_prop (Limit v) = map_option (\<lambda>n. JSON_member ''limit'' (JSON_number n)) v"
| "JSON_prop (AuthorId v) = map_option (\<lambda>s. JSON_member ''authorId'' (JSON_string s)) v"
| "JSON_prop (FromDate v) = map_option (\<lambda>s. JSON_member ''fromDate'' (JSON_string s)) v"
| "JSON_prop (ToDate v) = map_option (\<lambda>s. JSON_member ''toDate'' (JSON_string s)) v"
| "JSON_prop (Search v) = map_option (\<lambda>s. JSON_member ''search'' (JSON_string s)) v"

fun join_comma :: "string list \<Rightarrow> string" where
  "join_comma [] = []"
| "join_comma [x] = x"
| "join_comma (x # y # ys) = x @ CHR '','' # join_comma (y # ys)"

definition JSON_stringify :: "QueryArticlesDto \<Rightarrow> string" where
  "JSON_stringify query = CHR ''{'' # join_comma (List.map_filter JSON_prop query) @ ''}''"

text \<open>The key of a collection query, \<^verbatim>\<open>`articles:${JSON.stringify(query)}`\<close>.\<close>

definition list_cacheKey :: "QueryArticlesDto \<Rightarrow> string" where
  "list_cacheKey query = ''articles:'' @ JSON_stringify query"

text \<open>The key of a single article, \<^verbatim>\<open>`article:${id}`\<close>.\<close>

definition article_cacheKey :: "string \<Rightarrow> string" where
  "article_cacheKey ident = ''article:'' @ ident"

section \<open>The collaborators: cache manager and repository\<close>

text \<open>
  The exceptions a request can end with: the three HTTP exceptions the service throws
  itself, and the rejection of a call to one of its two injected collaborators. The
  service has no \<^verbatim>\<open>try\<close>/\<^verbatim>\<open>catch\<close>: an \<^verbatim>\<open>await\<close> on a rejected call
  rethrows.
\<close>

datatype error =
    NotFoundException string
  | ForbiddenException string
  | BadRequestException string
  | CacheError
  | StoreError

text \<open>
  The status the framework's exception filter answers with: the status of the HTTP
  exception, and 500 (internal server error) for any other error.
\<close>

fun http_status :: "error \<Rightarrow> nat" where
  "http_status (NotFoundException _) = 404"
| "http_status (ForbiddenException _) = 403"
| "http_status (BadRequestException _) = 400"
| "http_status CacheError = 500"
| "http_status StoreError = 500"

text \<open>
  The conditions of a store query (\<^verbatim>\<open>andWhere\<close>), by the SQL text the service passes
  and its parameters.
\<close>

datatype predicate =
    AuthorIdEq string
  | PublicationDateBetween string string
  | PublicationDateGe string
  | PublicationDateLe string
  | TitleOrDescriptionILike string

text \<open>
  The query builder after \<^verbatim>\<open>createQueryBuilder('article')\<close>,
  \<^verbatim>\<open>leftJoinAndSelect('article.author', 'author')\<close> and
  \<^verbatim>\<open>orderBy('article.publicationDate', 'DESC')\<close>: what varies is the offset, the row
  limit and the conditions.
\<close>

record QueryBuilder =
  qb_skip :: int
  qb_take :: int
  qb_where :: "predicate list"

definition andWhere :: "predicate \<Rightarrow> QueryBuilder \<Rightarrow> QueryBuilder" where
  "andWhere p qb = qb\<lparr>qb_where := qb_where qb @ [p]\<rparr>"

text \<open>Every call to a collaborator is recorded, in order, whether it succeeds or not.\<close>

datatype event =
    CacheGet string
  | CacheSet string jsvalue nat
  | CacheDel string
  | RepoSave Article
  | RepoFindOne string
  | RepoRemove Article
  | RepoGetManyAndCount QueryBuilder

datatype cache_op = OpGet | OpSet | OpDel

text \<open>
  The world a request runs in. The cache maps a key to a value and the time to live (in
  milliseconds) it was stored with; \<open>cacheFaults\<close> are the cache operations that
  currently reject. The store is the two tables, its cast from text to a timestamp, its
  generator of identifiers (\<^verbatim>\<open>uuid_generate_v4()\<close>) and whether it is unreachable.
\<close>

record state =
  cache :: "string \<rightharpoonup> jsvalue \<times> nat"
  cacheFaults :: "cache_op set"
  rows :: "Article list"
  users :: "User list"
  toTimestamp :: "string \<Rightarrow> int"
  uuid_gen :: "nat \<Rightarrow> string"
  uuid_next :: nat
  storeDown :: bool
  trace :: "event list"

text \<open>
  An asynchronous operation: from the world to a result (\<open>Inl\<close> a thrown error) and the
  world after it. \<open>bind\<close> is \<^verbatim>\<open>await\<close> followed by the rest of the function body.
\<close>

type_synonym 'a io = "state \<Rightarrow> (error + 'a) \<times> state"

definition ret :: "'a \<Rightarrow> 'a io" where
  "ret x = (\<lambda>s. (Inr x, s))"

definition throw :: "error \<Rightarrow> 'a io" where
  "throw e = (\<lambda>s. (Inl e, s))"

definition bind :: "'a io \<Rightarrow> ('a \<Rightarrow> 'b io) \<Rightarrow> 'b io" where
  "bind m f = (\<lambda>s. case m s of (Inl e, s') \<Rightarrow> (Inl e, s') | (Inr x, s') \<Rightarrow> f x s')"

definition log_event :: "event \<Rightarrow> state \<Rightarrow> state" where
  "log_event e s = s\<lparr>trace := trace s @ [e]\<rparr>"

subsection \<open>Cache manager\<close>

definition cacheManager_get :: "string \<Rightarrow> jsvalue option io" where
  "cacheManager_get key = (\<lambda>s.
     if OpGet \<in> cacheFaults s then (Inl CacheError, log_event (CacheGet key) s)
     else (Inr (map_option fst (cache s key)), log_event (CacheGet key) s))"

definition cacheManager_set :: "string \<Rightarrow> jsvalue \<Rightarrow> nat \<Rightarrow> unit io" where
  "cacheManager_set key v ttl = (\<lambda>s.
     if OpSet \<in> cacheFaults s then (Inl CacheError, log_event (CacheSet key v ttl) s)
     else (Inr (), log_event (CacheSet key v ttl) (s\<lparr>cache := (cache s)(key \<mapsto> (v, ttl))\<rparr>)))"

definition cacheManager_del :: "string \<Rightarrow> unit io" where
  "cacheManager_del key = (\<lambda>s.
     if OpDel \<in> cacheFaults s then (Inl CacheError, log_event (CacheDel key) s)
     else (Inr (), log_event (CacheDel key) (s\<lparr>cache := (cache s)(key := None)\<rparr>)))"

subsection \<open>Repository\<close>

text \<open>The relation \<^verbatim>\<open>author\<close> of a row, loaded by a left join on the users table.\<close>

definition with_author :: "User list \<Rightarrow> Article \<Rightarrow> Article" where
  "with_author us a = a\<lparr>author := find (\<lambda>u. user_id u = authorId a) us\<rparr>"

definition find_row :: "string \<Rightarrow> Article list \<Rightarrow> Article option" where
  "find_row ident rs = find (\<lambda>a. article_id a = ident) rs"

text \<open>\<^verbatim>\<open>findOne({ where: { id }, relations: ['author'] })\<close>.\<close>

definition repo_findOne :: "string \<Rightarrow> Article option io" where
  "repo_findOne ident = (\<lambda>s.
     if storeDown s then (Inl StoreError, log_event (RepoFindOne ident) s)
     else (Inr (map_option (with_author (users s)) (find_row ident (rows s))),
           log_event (RepoFindOne ident) s))"

text \<open>
  \<^verbatim>\<open>save\<close> of an entity that carries an identifier: the row of that identifier is
  replaced, or inserted when there is none. The table keeps the columns, not the loaded
  relation; the call returns the entity it was given.
\<close>

definition upsert_row :: "Article \<Rightarrow> Article list \<Rightarrow> Article list" where
  "upsert_row a rs =
     (if find_row (article_id a) rs = None then rs @ [a\<lparr>author := None\<rparr>]
      else map (\<lambda>r. if article_id r = article_id a then a\<lparr>author := None\<rparr> else r) rs)"

definition repo_save :: "Article \<Rightarrow> Article io" where
  "repo_save a = (\<lambda>s.
     if storeDown s then (Inl StoreError, log_event (RepoSave a) s)
     else (Inr a, log_event (RepoSave a) (s\<lparr>rows := upsert_row a (rows s)\<rparr>)))"

text \<open>
  \<^verbatim>\<open>create({...createArticleDto, authorId: userId})\<close> followed by \<^verbatim>\<open>save\<close>: the entity
  has no identifier yet, the store inserts a row under a generated one and the call
  returns the entity with it.
\<close>

definition new_entity :: "string \<Rightarrow> CreateArticleDto \<Rightarrow> string \<Rightarrow> Article" where
  "new_entity ident dto userId =
     \<lparr> article_id = ident, title = dto_title dto, description = dto_description dto,
       publicationDate = dto_publicationDate dto, authorId = userId, author = None \<rparr>"

definition repo_insert :: "CreateArticleDto \<Rightarrow> string \<Rightarrow> Article io" where
  "repo_insert dto userId = (\<lambda>s.
     let a = new_entity (uuid_gen s (uuid_next s)) dto userId in
     if storeDown s then (Inl StoreError, log_event (RepoSave a) s)
     else (Inr a, log_event (RepoSave a)
                    (s\<lparr>rows := rows s @ [a], uuid_next := Suc (uuid_next s)\<rparr>)))"

text \<open>\<^verbatim>\<open>remove(article)\<close>: the row of the entity's identifier is deleted.\<close>

definition repo_remove :: "Article \<Rightarrow> unit io" where
  "repo_remove a = (\<lambda>s.
     if storeDown s then (Inl StoreError, log_event (RepoRemove a) s)
     else (Inr (), log_event (RepoRemove a)
                     (s\<lparr>rows := filter (\<lambda>r. article_id r \<noteq> article_id a) (rows s)\<rparr>)))"

subsection \<open>Evaluation of a store query\<close>

text \<open>Case folding of \<^verbatim>\<open>ILIKE\<close>, on the letters A to Z.\<close>

definition lower :: "char \<Rightarrow> char" where
  "lower c =
     (case map_of (zip ''ABCDEFGHIJKLMNOPQRSTUVWXYZ'' ''abcdefghijklmnopqrstuvwxyz'') c of
        Some l \<Rightarrow> l
      | None \<Rightarrow> c)"

text \<open>
  \<^verbatim>\<open>text ILIKE pattern\<close>: in the pattern a percent sign matches any sequence of
  characters, an underscore any single character, and a reverse solidus (0x5C) takes
  the character after it literally; every other character matches itself up to case.
  (The store rejects a pattern that ends in a lone reverse solidus; the service never
  builds one, since its patterns end in a percent sign.)
\<close>

fun ILIKE :: "string \<Rightarrow> string \<Rightarrow> bool" where
  "ILIKE t [] = (t = [])"
| "ILIKE t (p # ps) =
     (if p = CHR ''%'' then
        (ILIKE t ps \<or> (case t of [] \<Rightarrow> False | c # cs \<Rightarrow> ILIKE cs (p # ps)))
      else if p = CHR ''_'' then
        (case t of [] \<Rightarrow> False | c # cs \<Rightarrow> ILIKE cs ps)
      else if p = CHR 0x5C then
        (case ps of
           [] \<Rightarrow> False
         | e # es \<Rightarrow> (case t of [] \<Rightarrow> False | c # cs \<Rightarrow> lower c = lower e \<and> ILIKE cs es))
      else (case t of [] \<Rightarrow> False | c # cs \<Rightarrow> lower c = lower p \<and> ILIKE cs ps))"

text \<open>
  A row against one condition. \<^verbatim>\<open>x BETWEEN a AND b\<close> is \<^verbatim>\<open>a <= x AND x <= b\<close>;
  timestamps are compared after the store's cast.
\<close>

fun matches :: "(string \<Rightarrow> int) \<Rightarrow> Article \<Rightarrow> predicate \<Rightarrow> bool" where
  "matches ts a (AuthorIdEq x) = (authorId a = x)"
| "matches ts a (PublicationDateBetween f t) =
     (ts f \<le> ts (publicationDate a) \<and> ts (publicationDate a) \<le> ts t)"
| "matches ts a (PublicationDateGe f) = (ts (publicationDate a) \<ge> ts f)"
| "matches ts a (PublicationDateLe t) = (ts (publicationDate a) \<le> ts t)"
| "matches ts a (TitleOrDescriptionILike p) = (ILIKE (title a) p \<or> ILIKE (description a) p)"

definition matching_rows :: "(string \<Rightarrow> int) \<Rightarrow> QueryBuilder \<Rightarrow> Article list \<Rightarrow> Article list" where
  "matching_rows ts qb rs = filter (\<lambda>a. list_all (matches ts a) (qb_where qb)) rs"

text \<open>
  The matching rows, most recent publication date first. SQL leaves the order of rows
  of equal date open; here they keep their table order.
\<close>

definition ordered_rows :: "(string \<Rightarrow> int) \<Rightarrow> QueryBuilder \<Rightarrow> Article list \<Rightarrow> Article list" where
  "ordered_rows ts qb rs = sort_key (\<lambda>a. - ts (publicationDate a)) (matching_rows ts qb rs)"

text \<open>
  \<^verbatim>\<open>getManyAndCount()\<close>: the page of rows after \<^verbatim>\<open>skip\<close> and \<^verbatim>\<open>take\<close>, with their
  authors, and the count of all matching rows. The store rejects a negative offset or
  row limit.
\<close>

definition getManyAndCount :: "QueryBuilder \<Rightarrow> (Article list \<times> nat) io" where
  "getManyAndCount qb = (\<lambda>s.
     if storeDown s \<or> qb_skip qb < 0 \<or> qb_take qb < 0
     then (Inl StoreError, log_event (RepoGetManyAndCount qb) s)
     else (Inr (map (with_author (users s))
                  (take (nat (qb_take qb))
                     (drop (nat (qb_skip qb)) (ordered_rows (toTimestamp s) qb (rows s)))),
                length (matching_rows (toTimestamp s) qb (rows s))),
           log_event (RepoGetManyAndCount qb) s))"

section \<open>The articles service\<close>

subsection \<open>\<^verbatim>\<open>create\<close>\<close>

text \<open>
  The part of \<^verbatim>\<open>create\<close> after the write: the article is read again with its author,
  and a miss raises \<^verbatim>\<open>NotFoundException\<close>. Other requests run between the two
  awaited calls, so the world this part starts in need not be the one the write left.
\<close>

definition create_reread :: "Article \<Rightarrow> Article io" where
  "create_reread savedArticle =
     bind (repo_findOne (article_id savedArticle)) (\<lambda>articleWithAuthor.
       case articleWithAuthor of
         None \<Rightarrow>
           throw (NotFoundException
             (''Article with ID '' @ article_id savedArticle @ '' not found after creation''))
       | Some a \<Rightarrow> ret a)"

definition create :: "CreateArticleDto \<Rightarrow> string \<Rightarrow> Article io" where
  "create createArticleDto userId =
     bind (repo_insert createArticleDto userId) create_reread"

subsection \<open>\<^verbatim>\<open>findAll\<close>\<close>

text \<open>
  The test \<^verbatim>\<open>if (x)\<close> on an optional string: \<^verbatim>\<open>undefined\<close> and the empty string are
  falsy. \<open>truthy\<close> returns the value when the test passes.
\<close>

definition truthy :: "string option \<Rightarrow> string option" where
  "truthy v = (case v of None \<Rightarrow> None | Some x \<Rightarrow> if x = [] then None else Some x)"

definition apply_filters :: "Filters \<Rightarrow> QueryBuilder \<Rightarrow> QueryBuilder" where
  "apply_filters f qb0 =
     (let qb1 = (case truthy (f_authorId f) of
                   Some a \<Rightarrow> andWhere (AuthorIdEq a) qb0
                 | None \<Rightarrow> qb0);
          qb2 = (case truthy (f_fromDate f) of
                   Some fd \<Rightarrow>
                     (case truthy (f_toDate f) of
                        Some td \<Rightarrow> andWhere (PublicationDateBetween fd td) qb1
                      | None \<Rightarrow> andWhere (PublicationDateGe fd) qb1)
                 | None \<Rightarrow>
                     (case truthy (f_toDate f) of
                        Some td \<Rightarrow> andWhere (PublicationDateLe td) qb1
                      | None \<Rightarrow> qb1))
      in (case truthy (f_search f) of
            Some x \<Rightarrow> andWhere (TitleOrDescriptionILike (''%'' @ x @ ''%'')) qb2
          | None \<Rightarrow> qb2))"

definition build_query :: "Filters \<Rightarrow> QueryBuilder" where
  "build_query f =
     apply_filters f
       \<lparr> qb_skip = (f_page f - 1) * f_limit f, qb_take = f_limit f, qb_where = [] \<rparr>"

text \<open>
  \<^verbatim>\<open>Math.ceil(total / limit)\<close> for a count and an integer: the ceiling of the
  quotient, and the two values of a division by zero.
\<close>

definition Math_ceil_div :: "nat \<Rightarrow> int \<Rightarrow> number" where
  "Math_ceil_div n l =
     (if l = 0 then (if n = 0 then NaN else Infinity)
      else Num (- ((- int n) div l)))"

definition findAll :: "QueryArticlesDto \<Rightarrow> jsvalue io" where
  "findAll query =
     (let f = destructure query;
          cacheKey = list_cacheKey query
      in bind (cacheManager_get cacheKey) (\<lambda>cachedResult.
           case cachedResult of
             Some v \<Rightarrow> ret v
           | None \<Rightarrow>
               bind (getManyAndCount (build_query f)) (\<lambda>(found, n).
                 let result = \<lparr> data = found, total' = n, page = f_page f,
                                limit = f_limit f,
                                totalPages = Math_ceil_div n (f_limit f) \<rparr>
                 in bind (cacheManager_set cacheKey (VPage result) 300000)
                      (\<lambda>_. ret (VPage result)))))"

subsection \<open>\<^verbatim>\<open>findOne\<close>\<close>

definition findOne :: "string \<Rightarrow> jsvalue io" where
  "findOne ident =
     (let cacheKey = article_cacheKey ident
      in bind (cacheManager_get cacheKey) (\<lambda>cachedArticle.
           case cachedArticle of
             Some v \<Rightarrow> ret v
           | None \<Rightarrow>
               bind (repo_findOne ident) (\<lambda>article.
                 case article of
                   None \<Rightarrow>
                     throw (NotFoundException (''Article with ID '' @ ident @ '' not found''))
                 | Some a \<Rightarrow>
                     bind (cacheManager_set cacheKey (VArticle a) 300000)
                       (\<lambda>_. ret (VArticle a)))))"

subsection \<open>\<^verbatim>\<open>update\<close> and \<^verbatim>\<open>remove\<close>\<close>

definition invalidateArticleCache :: "string \<Rightarrow> unit io" where
  "invalidateArticleCache ident = cacheManager_del (article_cacheKey ident)"

definition Object_values :: "UpdateArticleDto \<Rightarrow> string option list" where
  "Object_values dto = [upd_title dto, upd_description dto, upd_publicationDate dto]"

definition hasFields :: "UpdateArticleDto \<Rightarrow> bool" where
  "hasFields dto = list_ex (\<lambda>v. v \<noteq> None) (Object_values dto)"

text \<open>\<^verbatim>\<open>Object.assign(article, updateArticleDto)\<close>: the supplied properties overwrite.\<close>

definition Object_assign :: "Article \<Rightarrow> UpdateArticleDto \<Rightarrow> Article" where
  "Object_assign a dto =
     a\<lparr> title := (case upd_title dto of Some x \<Rightarrow> x | None \<Rightarrow> title a),
        description := (case upd_description dto of Some x \<Rightarrow> x | None \<Rightarrow> description a),
        publicationDate :=
          (case upd_publicationDate dto of Some x \<Rightarrow> x | None \<Rightarrow> publicationDate a) \<rparr>"

text \<open>
  The ownership test \<^verbatim>\<open>article.authorId !== userId\<close> is made on whatever \<^verbatim>\<open>findOne\<close>
  returned; a value without the property \<^verbatim>\<open>authorId\<close> reads \<^verbatim>\<open>undefined\<close>, which
  differs from every user identifier.
\<close>

definition update :: "string \<Rightarrow> UpdateArticleDto \<Rightarrow> string \<Rightarrow> Article io" where
  "update ident updateArticleDto userId =
     (if \<not> hasFields updateArticleDto
      then throw (BadRequestException ''At least one field must be provided for update'')
      else bind (findOne ident) (\<lambda>article.
        case article of
          VPage _ \<Rightarrow>
            throw (ForbiddenException ''You are not authorized to update this article'')
        | VArticle a \<Rightarrow>
            if authorId a \<noteq> userId
            then throw (ForbiddenException ''You are not authorized to update this article'')
            else bind (repo_save (Object_assign a updateArticleDto)) (\<lambda>updatedArticle.
                 bind (invalidateArticleCache ident) (\<lambda>_. ret updatedArticle))))"

definition remove :: "string \<Rightarrow> string \<Rightarrow> unit io" where
  "remove ident userId =
     bind (findOne ident) (\<lambda>article.
       case article of
         VPage _ \<Rightarrow>
           throw (ForbiddenException ''You are not authorized to delete this article'')
       | VArticle a \<Rightarrow>
           if authorId a \<noteq> userId
           then throw (ForbiddenException ''You are not authorized to delete this article'')
           else bind (repo_remove a) (\<lambda>_.
                bind (invalidateArticleCache ident) (\<lambda>_. ret ())))"

section \<open>Notions used by the properties\<close>

text \<open>A world in which every call to the cache and to the store succeeds.\<close>

definition healthy :: "state \<Rightarrow> bool" where
  "healthy s = (cacheFaults s = {} \<and> \<not> storeDown s)"

text \<open>
  The page \<^verbatim>\<open>findAll\<close> computes from the store on a cache miss, for a query whose
  offset and row limit the store accepts.
\<close>

definition page_of :: "QueryArticlesDto \<Rightarrow> state \<Rightarrow> PageResult" where
  "page_of q s =
     (let f = destructure q; qb = build_query f in
      \<lparr> data = map (with_author (users s))
                 (take (nat (f_limit f))
                    (drop (nat ((f_page f - 1) * f_limit f))
                       (ordered_rows (toTimestamp s) qb (rows s)))),
        total' = length (matching_rows (toTimestamp s) qb (rows s)),
        page = f_page f, limit = f_limit f,
        totalPages = Math_ceil_div (length (matching_rows (toTimestamp s) qb (rows s))) (f_limit f) \<rparr>)"

text \<open>A property of the query object whose value is not \<^verbatim>\<open>undefined\<close>.\<close>

fun is_defined :: "qprop \<Rightarrow> bool" where
  "is_defined (Page v) = (v \<noteq> None)"
| "is_defined (Limit v) = (v \<noteq> None)"
| "is_defined (AuthorId v) = (v \<noteq> None)"
| "is_defined (FromDate v) = (v \<noteq> None)"
| "is_defined (ToDate v) = (v \<noteq> None)"
| "is_defined (Search v) = (v \<noteq> None)"

text \<open>
  The predicate of a collection query in the words of the specification: author
  equality if \<^verbatim>\<open>authorId\<close> is present, the closed interval of publication dates, and a
  case-insensitive substring match against title or description if \<^verbatim>\<open>search\<close> is
  present.
\<close>

definition contains_ci :: "string \<Rightarrow> string \<Rightarrow> bool" where
  "contains_ci t x = sublist (map lower x) (map lower t)"

definition spec_predicate :: "(string \<Rightarrow> int) \<Rightarrow> Filters \<Rightarrow> Article \<Rightarrow> bool" where
  "spec_predicate ts f a =
     ((case f_authorId f of None \<Rightarrow> True | Some x \<Rightarrow> authorId a = x)
    \<and> (case f_fromDate f of None \<Rightarrow> True | Some d \<Rightarrow> ts d \<le> ts (publicationDate a))
    \<and> (case f_toDate f of None \<Rightarrow> True | Some d \<Rightarrow> ts (publicationDate a) \<le> ts d)
    \<and> (case f_search f of None \<Rightarrow> True
        | Some x \<Rightarrow> contains_ci (title a) x \<or> contains_ci (description a) x))"

text \<open>
  Filters whose identifier and timestamps, when present, are not the empty string (no
  identifier and no timestamp is), and a search text without a pattern character of
  \<^verbatim>\<open>ILIKE\<close>.
\<close>

definition valid_filters :: "Filters \<Rightarrow> bool" where
  "valid_filters f =
     (f_authorId f \<noteq> Some [] \<and> f_fromDate f \<noteq> Some [] \<and> f_toDate f \<noteq> Some [])"

definition pattern_free :: "string \<Rightarrow> bool" where
  "pattern_free x = list_all (\<lambda>c. c \<noteq> CHR ''%'' \<and> c \<noteq> CHR ''_'' \<and> c \<noteq> CHR 0x5C) x"

subsection \<open>An example world\<close>

text \<open>The user and the article of the service's unit tests, in an otherwise empty world.\<close>

definition ex_user :: User where
  "ex_user = \<lparr> user_id = ''user-123'', email = ''test@example.com'',
               firstName = ''John'', lastName = ''Doe'' \<rparr>"

definition ex_id :: string where
  "ex_id = ''123e4567-e89b-12d3-a456-426614174000''"

definition ex_article :: Article where
  "ex_article = \<lparr> article_id = ex_id, title = ''Test Article'',
                  description = ''Test Description'', publicationDate = ''2024-01-01'',
                  authorId = ''user-123'', author = None \<rparr>"

text \<open>A cast for the example: the decimal digits of the text read as one number.\<close>

definition ex_timestamp :: "string \<Rightarrow> int" where
  "ex_timestamp t =
     foldl (\<lambda>n c. case map_of (zip ''0123456789'' [0, 1, 2, 3, 4, 5, 6, 7, 8, 9]) c of
                     Some d \<Rightarrow> 10 * n + d
                   | None \<Rightarrow> n) 0 t"

definition ex_world :: state where
  "ex_world = \<lparr> cache = Map.empty, cacheFaults = {}, rows = [ex_article],
               users = [ex_user], toTimestamp = ex_timestamp,
               uuid_gen = (\<lambda>n. ''generated-'' @ digits n), uuid_next = 0,
               storeDown = False, trace = [] \<rparr>"

text \<open>The same world with the article in the cache, as \<^verbatim>\<open>findOne\<close> leaves it.\<close>

definition ex_cached :: state where
  "ex_cached = ex_world\<lparr> cache :=
     [article_cacheKey ex_id \<mapsto> (VArticle (with_author [ex_user] ex_article), 300000)] \<rparr>"

text \<open>The same again with a cached page of the collection query without filters.\<close>

definition ex_paged :: state where
  "ex_paged = ex_cached\<lparr> cache :=
     (cache ex_cached)(list_cacheKey [] \<mapsto> (VPage (page_of [] ex_world), 300000)) \<rparr>"

text \<open>A world of 25 articles, for the pagination example.\<close>

definition ex_world25 :: state where
  "ex_world25 = ex_world\<lparr> rows :=
     map (\<lambda>n. ex_article\<lparr> article_id := ''article-'' @ digits n \<rparr>) [0..<25] \<rparr>"

definition ex_update :: UpdateArticleDto where
  "ex_update = \<lparr> upd_title = Some ''Updated Title'', upd_description = None,
                 upd_publicationDate = None \<rparr>"

definition ex_empty_update :: UpdateArticleDto where
  "ex_empty_update = \<lparr> upd_title = None, upd_description = None, upd_publicationDate = None \<rparr>"

definition ex_create :: CreateArticleDto where
  "ex_create = \<lparr> dto_title = ''Test Article'', dto_description = ''Test Description'',
                 dto_publicationDate = ''2024-01-01'' \<rparr>"

section \<open>Auxiliary facts\<close>

lemmas io_defs = bind_def ret_def throw_def log_event_def

lemmas svc_defs = findOne_def Let_def io_defs cacheManager_get_def cacheManager_set_def
  cacheManager_del_def repo_findOne_def repo_save_def repo_remove_def
  invalidateArticleCache_def

lemmas json_defs = list_cacheKey_def JSON_stringify_def JSON_member_def JSON_string_def
  escape_char_def JSON_number_def digits.simps

lemmas ex_defs = ex_world_def ex_cached_def ex_article_def ex_user_def ex_id_def
  ex_update_def ex_empty_update_def ex_create_def

lemma findOne_hit:
  assumes "OpGet \<notin> cacheFaults s" and "cache s (article_cacheKey ident) = Some (v, ttl)"
  shows "findOne ident s = (Inr v, s\<lparr>trace := trace s @ [CacheGet (article_cacheKey ident)]\<rparr>)"
  using assms by (simp add: findOne_def Let_def io_defs cacheManager_get_def)

lemma findOne_miss_found:
  assumes "OpGet \<notin> cacheFaults s" and "OpSet \<notin> cacheFaults s" and "\<not> storeDown s"
    and "cache s (article_cacheKey ident) = None"
    and "find_row ident (rows s) = Some a"
  shows "findOne ident s =
    (Inr (VArticle (with_author (users s) a)),
     s\<lparr>cache := (cache s)(article_cacheKey ident \<mapsto>
                  (VArticle (with_author (users s) a), 300000)),
       trace := trace s @
         [CacheGet (article_cacheKey ident), RepoFindOne ident,
          CacheSet (article_cacheKey ident) (VArticle (with_author (users s) a)) 300000]\<rparr>)"
  using assms
  by (simp add: findOne_def Let_def io_defs cacheManager_get_def cacheManager_set_def
      repo_findOne_def)

lemma findOne_miss_absent:
  assumes "OpGet \<notin> cacheFaults s" and "\<not> storeDown s"
    and "cache s (article_cacheKey ident) = None"
    and "find_row ident (rows s) = None"
  shows "findOne ident s =
    (Inl (NotFoundException (''Article with ID '' @ ident @ '' not found'')),
     s\<lparr>trace := trace s @ [CacheGet (article_cacheKey ident), RepoFindOne ident]\<rparr>)"
  using assms
  by (simp add: findOne_def Let_def io_defs cacheManager_get_def repo_findOne_def)

lemma findAll_hit:
  assumes "OpGet \<notin> cacheFaults s" and "cache s (list_cacheKey q) = Some (v, ttl)"
  shows "findAll q s = (Inr v, s\<lparr>trace := trace s @ [CacheGet (list_cacheKey q)]\<rparr>)"
  using assms by (simp add: findAll_def io_defs cacheManager_get_def Let_def)

lemma build_query_skip: "qb_skip (build_query f) = (f_page f - 1) * f_limit f"
  by (simp add: build_query_def apply_filters_def andWhere_def Let_def split: option.splits)

lemma build_query_take: "qb_take (build_query f) = f_limit f"
  by (simp add: build_query_def apply_filters_def andWhere_def Let_def split: option.splits)

lemma skip_nonneg: "1 \<le> (p::int) \<Longrightarrow> 1 \<le> l \<Longrightarrow> \<not> (p - 1) * l < 0"
  by (simp add: not_less)

lemma findAll_miss:
  assumes "OpGet \<notin> cacheFaults s" and "OpSet \<notin> cacheFaults s" and "\<not> storeDown s"
    and "cache s (list_cacheKey q) = None"
    and "1 \<le> f_page (destructure q)" and "1 \<le> f_limit (destructure q)"
  shows "findAll q s =
    (Inr (VPage (page_of q s)),
     s\<lparr>cache := (cache s)(list_cacheKey q \<mapsto> (VPage (page_of q s), 300000)),
       trace := trace s @
         [CacheGet (list_cacheKey q), RepoGetManyAndCount (build_query (destructure q)),
          CacheSet (list_cacheKey q) (VPage (page_of q s)) 300000]\<rparr>)"
  using assms skip_nonneg[of "f_page (destructure q)" "f_limit (destructure q)"]
  by (simp add: findAll_def io_defs cacheManager_get_def cacheManager_set_def
      getManyAndCount_def Let_def page_of_def build_query_skip build_query_take)

lemma authorId_with_author: "authorId (with_author us a) = authorId a"
  by (simp add: with_author_def)

lemma find_row_snoc:
  "find_row i (rs @ [a]) =
     (case find_row i rs of
        None \<Rightarrow> (if article_id a = i then Some a else None)
      | Some r \<Rightarrow> Some r)"
  by (induction rs) (auto simp: find_row_def)

lemma Math_ceil_div_ceiling:
  assumes "l \<noteq> 0"
  shows "Math_ceil_div n l = Num \<lceil>real n / real_of_int l\<rceil>"
proof -
  have "\<lceil>real n / real_of_int l\<rceil> = \<lceil>real_of_int (int n) / real_of_int l\<rceil>" by simp
  also have "\<dots> = - ((- int n) div l)" by (rule ceiling_divide_eq_div)
  finally show ?thesis using assms by (simp add: Math_ceil_div_def)
qed

lemma length_ordered_rows: "length (ordered_rows ts qb rs) = length (matching_rows ts qb rs)"
  by (simp add: ordered_rows_def)

section \<open>Cache keys of collection queries\<close>

lemma map_filter_defined:
  "List.map_filter JSON_prop (filter is_defined q) = List.map_filter JSON_prop q"
proof (induction q)
  case Nil
  then show ?case by simp
next
  case (Cons p q)
  then show ?case by (cases p) (auto simp: List.map_filter_simps)
qed

lemma get_page_absent: "''page'' \<notin> set (map prop_name q) \<Longrightarrow> get_page q = None"
  by (induction q rule: get_page.induct) auto

lemma get_limit_absent: "''limit'' \<notin> set (map prop_name q) \<Longrightarrow> get_limit q = None"
  by (induction q rule: get_limit.induct) auto

lemma get_authorId_absent:
  "''authorId'' \<notin> set (map prop_name q) \<Longrightarrow> get_authorId q = None"
  by (induction q rule: get_authorId.induct) auto

lemma get_fromDate_absent:
  "''fromDate'' \<notin> set (map prop_name q) \<Longrightarrow> get_fromDate q = None"
  by (induction q rule: get_fromDate.induct) auto

lemma get_toDate_absent: "''toDate'' \<notin> set (map prop_name q) \<Longrightarrow> get_toDate q = None"
  by (induction q rule: get_toDate.induct) auto

lemma get_search_absent: "''search'' \<notin> set (map prop_name q) \<Longrightarrow> get_search q = None"
  by (induction q rule: get_search.induct) auto

lemma get_page_defined: "wf_query q \<Longrightarrow> get_page (filter is_defined q) = get_page q"
proof (induction q)
  case Nil
  then show ?case by simp
next
  case (Cons p q)
  then show ?case by (cases p) (auto simp: wf_query_def get_page_absent)
qed

lemma get_limit_defined: "wf_query q \<Longrightarrow> get_limit (filter is_defined q) = get_limit q"
proof (induction q)
  case Nil
  then show ?case by simp
next
  case (Cons p q)
  then show ?case by (cases p) (auto simp: wf_query_def get_limit_absent)
qed

lemma get_authorId_defined:
  "wf_query q \<Longrightarrow> get_authorId (filter is_defined q) = get_authorId q"
proof (induction q)
  case Nil
  then show ?case by simp
next
  case (Cons p q)
  then show ?case by (cases p) (auto simp: wf_query_def get_authorId_absent)
qed

lemma get_fromDate_defined:
  "wf_query q \<Longrightarrow> get_fromDate (filter is_defined q) = get_fromDate q"
proof (induction q)
  case Nil
  then show ?case by simp
next
  case (Cons p q)
  then show ?case by (cases p) (auto simp: wf_query_def get_fromDate_absent)
qed

lemma get_toDate_defined: "wf_query q \<Longrightarrow> get_toDate (filter is_defined q) = get_toDate q"
proof (induction q)
  case Nil
  then show ?case by simp
next
  case (Cons p q)
  then show ?case by (cases p) (auto simp: wf_query_def get_toDate_absent)
qed

lemma get_search_defined: "wf_query q \<Longrightarrow> get_search (filter is_defined q) = get_search q"
proof (induction q)
  case Nil
  then show ?case by simp
next
  case (Cons p q)
  then show ?case by (cases p) (auto simp: wf_query_def get_search_absent)
qed

lemma destructure_defined:
  "wf_query q \<Longrightarrow> destructure (filter is_defined q) = destructure q"
  by (simp add: destructure_def get_page_defined get_limit_defined get_authorId_defined
      get_fromDate_defined get_toDate_defined get_search_defined)

text \<open>
  C1 (as amended). The key of a collection query is the serialization of the query
  object as it was supplied, not of the effective filters: two query objects that carry
  the same defined properties with the same values in the same order get the same key;
  properties whose value is \<^verbatim>\<open>undefined\<close> do not count. Two such objects (with at most
  one property of a name) also have the same effective filters.
\<close>

theorem list_cacheKey_defined_props:
  assumes "filter is_defined q1 = filter is_defined q2"
  shows "list_cacheKey q1 = list_cacheKey q2
       \<and> (wf_query q1 \<and> wf_query q2 \<longrightarrow> destructure q1 = destructure q2)"
proof -
  have "List.map_filter JSON_prop q1 = List.map_filter JSON_prop q2"
    using assms map_filter_defined[of q1] map_filter_defined[of q2] by simp
  then have key: "list_cacheKey q1 = list_cacheKey q2"
    by (simp add: list_cacheKey_def JSON_stringify_def)
  have "destructure q1 = destructure q2" if "wf_query q1" "wf_query q2"
    using assms destructure_defined[OF that(1)] destructure_defined[OF that(2)] by simp
  then show ?thesis using key by blast
qed

theorem list_cacheKey_defined_props_witness:
  "filter is_defined [Page (Some 2), Search None, Limit (Some 10)]
     = filter is_defined [AuthorId None, Page (Some 2), Limit (Some 10)]
   \<and> wf_query [Page (Some 2), Search None, Limit (Some 10)]
   \<and> wf_query [AuthorId None, Page (Some 2), Limit (Some 10)]
   \<and> list_cacheKey [Page (Some 2), Search None, Limit (Some 10)]
     = list_cacheKey [AuthorId None, Page (Some 2), Limit (Some 10)]
   \<and> destructure [Page (Some 2), Search None, Limit (Some 10)]
     = destructure [AuthorId None, Page (Some 2), Limit (Some 10)]"
  using list_cacheKey_defined_props
    [of "[Page (Some 2), Search None, Limit (Some 10)]"
        "[AuthorId None, Page (Some 2), Limit (Some 10)]"]
  by (simp add: wf_query_def)

text \<open>
  C1 as stated fails. The empty query and the query that spells out the defaults
  \<^verbatim>\<open>{page: 1, limit: 10}\<close> have the same effective filters and different keys
  (\<^verbatim>\<open>articles:{}\<close> against \<^verbatim>\<open>articles:{"page":1,"limit":10}\<close>); so have two queries
  that supply the same two fields in a different order.
\<close>

theorem list_cacheKey_not_canonical:
  "destructure [] = destructure [Page (Some 1), Limit (Some 10)]
   \<and> list_cacheKey [] \<noteq> list_cacheKey [Page (Some 1), Limit (Some 10)]
   \<and> destructure [Page (Some 2), Limit (Some 5)] = destructure [Limit (Some 5), Page (Some 2)]
   \<and> list_cacheKey [Page (Some 2), Limit (Some 5)]
       \<noteq> list_cacheKey [Limit (Some 5), Page (Some 2)]"
  by (simp add: destructure_def json_defs)

section \<open>The cache-aside read\<close>

text \<open>
  C2. On a cache hit \<^verbatim>\<open>findOne\<close> and \<^verbatim>\<open>findAll\<close> return the cached value, and the
  only call they make is the cache read: no store query. On a miss (in a healthy world;
  for \<^verbatim>\<open>findOne\<close> with the article in the store, for \<^verbatim>\<open>findAll\<close> with a page and
  limit of at least 1) they query the store once, write the cache once, storing the
  loaded value at the key with a time to live of 5 minutes (300000 ms), and return the
  loaded value.
\<close>

theorem cache_aside_read:
  "(OpGet \<notin> cacheFaults s \<and> cache s (article_cacheKey ident) = Some (v, ttl) \<longrightarrow>
      findOne ident s = (Inr v, s\<lparr>trace := trace s @ [CacheGet (article_cacheKey ident)]\<rparr>))
   \<and> (healthy s \<and> cache s (article_cacheKey ident) = None
        \<and> find_row ident (rows s) = Some a \<longrightarrow>
      findOne ident s =
        (Inr (VArticle (with_author (users s) a)),
         s\<lparr>cache := (cache s)(article_cacheKey ident \<mapsto>
                      (VArticle (with_author (users s) a), 5 * 60 * 1000)),
           trace := trace s @
             [CacheGet (article_cacheKey ident), RepoFindOne ident,
              CacheSet (article_cacheKey ident) (VArticle (with_author (users s) a))
                (5 * 60 * 1000)]\<rparr>))
   \<and> (OpGet \<notin> cacheFaults s \<and> cache s (list_cacheKey q) = Some (w, ttl') \<longrightarrow>
      findAll q s = (Inr w, s\<lparr>trace := trace s @ [CacheGet (list_cacheKey q)]\<rparr>))
   \<and> (healthy s \<and> cache s (list_cacheKey q) = None
        \<and> 1 \<le> f_page (destructure q) \<and> 1 \<le> f_limit (destructure q) \<longrightarrow>
      findAll q s =
        (Inr (VPage (page_of q s)),
         s\<lparr>cache := (cache s)(list_cacheKey q \<mapsto> (VPage (page_of q s), 5 * 60 * 1000)),
           trace := trace s @
             [CacheGet (list_cacheKey q), RepoGetManyAndCount (build_query (destructure q)),
              CacheSet (list_cacheKey q) (VPage (page_of q s)) (5 * 60 * 1000)]\<rparr>))"
  using findOne_hit[of s ident v ttl] findOne_miss_found[of s ident a]
    findAll_hit[of s q w ttl'] findAll_miss[of s q]
  by (simp add: healthy_def)

theorem cache_aside_read_witness:
  "fst (findOne ex_id ex_cached) = Inr (VArticle (with_author [ex_user] ex_article))
   \<and> trace (snd (findOne ex_id ex_cached)) = [CacheGet (article_cacheKey ex_id)]
   \<and> fst (findOne ex_id ex_world) = Inr (VArticle (with_author [ex_user] ex_article))
   \<and> trace (snd (findOne ex_id ex_world)) =
       [CacheGet (article_cacheKey ex_id), RepoFindOne ex_id,
        CacheSet (article_cacheKey ex_id) (VArticle (with_author [ex_user] ex_article)) 300000]
   \<and> cache (snd (findOne ex_id ex_world)) (article_cacheKey ex_id) =
       Some (VArticle (with_author [ex_user] ex_article), 300000)
   \<and> fst (findAll []
        (ex_world\<lparr>cache := [list_cacheKey [] \<mapsto> (VPage (page_of [] ex_world), 300000)]\<rparr>)) =
       Inr (VPage (page_of [] ex_world))
   \<and> fst (findAll [] ex_world) = Inr (VPage (page_of [] ex_world))
   \<and> trace (snd (findAll [] ex_world)) =
       [CacheGet (list_cacheKey []), RepoGetManyAndCount (build_query (destructure [])),
        CacheSet (list_cacheKey []) (VPage (page_of [] ex_world)) 300000]"
  using cache_aside_read
      [where s = ex_cached and ident = ex_id
         and v = "VArticle (with_author [ex_user] ex_article)" and ttl = 300000]
    cache_aside_read
      [where s = ex_world and ident = ex_id and a = ex_article and q = "[]"]
    cache_aside_read
      [where s = "ex_world\<lparr>cache := [list_cacheKey [] \<mapsto> (VPage (page_of [] ex_world), 300000)]\<rparr>"
         and q = "[]" and w = "VPage (page_of [] ex_world)" and ttl' = 300000]
  by (simp add: healthy_def ex_world_def ex_cached_def ex_article_def find_row_def
      destructure_def)

section \<open>\<^verbatim>\<open>findOne\<close>: not found\<close>

text \<open>
  C3. With the cache readable and the store reachable, \<^verbatim>\<open>findOne\<close> fails with
  \<^verbatim>\<open>NotFoundException\<close> exactly when the article is neither in the cache nor in the
  store; in that case the only calls are the cache read and the store lookup: nothing
  is written to the cache, which is left as it was.
\<close>

theorem findOne_NotFound_iff:
  assumes "OpGet \<notin> cacheFaults s" and "\<not> storeDown s"
  shows "((\<exists>m. fst (findOne ident s) = Inl (NotFoundException m)) \<longleftrightarrow>
            (cache s (article_cacheKey ident) = None \<and> find_row ident (rows s) = None))
       \<and> (cache s (article_cacheKey ident) = None \<and> find_row ident (rows s) = None \<longrightarrow>
            findOne ident s =
              (Inl (NotFoundException (''Article with ID '' @ ident @ '' not found'')),
               s\<lparr>trace := trace s @ [CacheGet (article_cacheKey ident), RepoFindOne ident]\<rparr>)
            \<and> cache (snd (findOne ident s)) = cache s)"
proof -
  have absent: "findOne ident s =
      (Inl (NotFoundException (''Article with ID '' @ ident @ '' not found'')),
       s\<lparr>trace := trace s @ [CacheGet (article_cacheKey ident), RepoFindOne ident]\<rparr>)"
    if "cache s (article_cacheKey ident) = None" "find_row ident (rows s) = None"
    using findOne_miss_absent[OF assms that] .
  have present: "fst (findOne ident s) \<noteq> Inl (NotFoundException m)"
    if "\<not> (cache s (article_cacheKey ident) = None \<and> find_row ident (rows s) = None)" for m
    using that assms
    by (auto simp: findOne_def Let_def io_defs cacheManager_get_def cacheManager_set_def
        repo_findOne_def split: option.splits)
  show ?thesis
  proof (cases "cache s (article_cacheKey ident) = None \<and> find_row ident (rows s) = None")
    case True
    then show ?thesis using absent by simp
  next
    case False
    then show ?thesis using present by blast
  qed
qed

theorem findOne_NotFound_iff_witness:
  "OpGet \<notin> cacheFaults ex_world \<and> \<not> storeDown ex_world
   \<and> cache ex_world (article_cacheKey ''non-existent-id'') = None
   \<and> find_row ''non-existent-id'' (rows ex_world) = None
   \<and> findOne ''non-existent-id'' ex_world =
       (Inl (NotFoundException ''Article with ID non-existent-id not found''),
        ex_world\<lparr>trace := [CacheGet (article_cacheKey ''non-existent-id''),
                           RepoFindOne ''non-existent-id'']\<rparr>)
   \<and> cache (snd (findOne ''non-existent-id'' ex_world)) = cache ex_world
   \<and> find_row ex_id (rows ex_world) = Some ex_article
   \<and> \<not> (\<exists>m. fst (findOne ex_id ex_world) = Inl (NotFoundException m))"
  using findOne_NotFound_iff[of ex_world "''non-existent-id''"]
    findOne_NotFound_iff[of ex_world ex_id]
  by (simp add: ex_world_def ex_article_def ex_id_def find_row_def)

section \<open>Ownership\<close>

text \<open>
  C4 (as amended). In a healthy world, for an update that supplies at least one field
  and for a removal: when the article exists (served from the cache, or from the store
  on a miss), the operation fails with \<^verbatim>\<open>ForbiddenException\<close> exactly when the
  requester is not the article's author; when it exists in neither, the operation fails
  with \<^verbatim>\<open>NotFoundException\<close>. Existence is checked before ownership.
\<close>

theorem ownership_gate:
  assumes "healthy s" and "hasFields dto"
  shows "((cache s (article_cacheKey ident) = Some (VArticle a, ttl) \<or>
           (cache s (article_cacheKey ident) = None \<and> find_row ident (rows s) = Some a)) \<longrightarrow>
            ((\<exists>m. fst (update ident dto userId s) = Inl (ForbiddenException m))
               \<longleftrightarrow> authorId a \<noteq> userId)
          \<and> ((\<exists>m. fst (remove ident userId s) = Inl (ForbiddenException m))
               \<longleftrightarrow> authorId a \<noteq> userId))
       \<and> (cache s (article_cacheKey ident) = None \<and> find_row ident (rows s) = None \<longrightarrow>
            fst (update ident dto userId s) =
              Inl (NotFoundException (''Article with ID '' @ ident @ '' not found''))
          \<and> fst (remove ident userId s) =
              Inl (NotFoundException (''Article with ID '' @ ident @ '' not found'')))"
  using assms
  by (auto simp: healthy_def update_def remove_def svc_defs authorId_with_author)

theorem ownership_gate_witness:
  "healthy ex_world \<and> healthy ex_cached \<and> hasFields ex_update
   \<and> find_row ex_id (rows ex_world) = Some ex_article
   \<and> authorId ex_article \<noteq> ''different-user''
   \<and> (\<exists>m. fst (update ex_id ex_update ''different-user'' ex_world) = Inl (ForbiddenException m))
   \<and> (\<exists>m. fst (remove ex_id ''different-user'' ex_world) = Inl (ForbiddenException m))
   \<and> (\<exists>m. fst (update ex_id ex_update ''different-user'' ex_cached) = Inl (ForbiddenException m))
   \<and> (\<exists>m. fst (remove ex_id ''different-user'' ex_cached) = Inl (ForbiddenException m))
   \<and> \<not> (\<exists>m. fst (update ex_id ex_update ''user-123'' ex_world) = Inl (ForbiddenException m))
   \<and> \<not> (\<exists>m. fst (remove ex_id ''user-123'' ex_cached) = Inl (ForbiddenException m))
   \<and> fst (remove ''non-existent-id'' ''user-123'' ex_world) =
       Inl (NotFoundException ''Article with ID non-existent-id not found'')
   \<and> fst (update ''non-existent-id'' ex_update ''user-123'' ex_world) =
       Inl (NotFoundException ''Article with ID non-existent-id not found'')"
  using ownership_gate
      [where s = ex_world and dto = ex_update and ident = ex_id and a = ex_article
         and userId = "''different-user''"]
    ownership_gate
      [where s = ex_cached and dto = ex_update and ident = ex_id
         and a = "with_author [ex_user] ex_article" and ttl = 300000
         and userId = "''different-user''"]
    ownership_gate
      [where s = ex_world and dto = ex_update and ident = ex_id and a = ex_article
         and userId = "''user-123''"]
    ownership_gate
      [where s = ex_cached and dto = ex_update and ident = ex_id
         and a = "with_author [ex_user] ex_article" and ttl = 300000
         and userId = "''user-123''"]
    ownership_gate
      [where s = ex_world and dto = ex_update and ident = "''non-existent-id''"
         and userId = "''user-123''"]
  by (simp add: healthy_def hasFields_def Object_values_def ex_defs find_row_def
      with_author_def article_cacheKey_def)

text \<open>
  C4 as stated fails for an update whose payload has no field set: the payload is
  checked before the article is resolved, so a requester who is not the author of an
  existing article gets \<^verbatim>\<open>BadRequestException\<close>, not \<^verbatim>\<open>ForbiddenException\<close>, and
  an unknown identifier gets \<^verbatim>\<open>BadRequestException\<close>, not \<^verbatim>\<open>NotFoundException\<close>.
\<close>

theorem ownership_gate_empty_payload:
  "healthy ex_world \<and> find_row ex_id (rows ex_world) = Some ex_article
   \<and> authorId ex_article \<noteq> ''different-user''
   \<and> fst (update ex_id ex_empty_update ''different-user'' ex_world) =
       Inl (BadRequestException ''At least one field must be provided for update'')
   \<and> find_row ''non-existent-id'' (rows ex_world) = None
   \<and> cache ex_world (article_cacheKey ''non-existent-id'') = None
   \<and> fst (update ''non-existent-id'' ex_empty_update ''user-123'' ex_world) =
       Inl (BadRequestException ''At least one field must be provided for update'')"
  by (simp add: healthy_def update_def hasFields_def Object_values_def throw_def ex_defs
      find_row_def)

section \<open>Update without a field\<close>

text \<open>
  C5. An update whose payload has every field unset fails with
  \<^verbatim>\<open>BadRequestException\<close> and leaves the world as it was: no call to the cache or the
  store is made (the trace of calls is unchanged with the rest).
\<close>

theorem update_all_unset:
  assumes "upd_title dto = None" and "upd_description dto = None"
    and "upd_publicationDate dto = None"
  shows "update ident dto userId s =
           (Inl (BadRequestException ''At least one field must be provided for update''), s)"
  using assms by (simp add: update_def hasFields_def Object_values_def throw_def)

theorem update_all_unset_witness:
  "upd_title ex_empty_update = None \<and> upd_description ex_empty_update = None
   \<and> upd_publicationDate ex_empty_update = None
   \<and> update ex_id ex_empty_update ''user-123'' ex_world =
       (Inl (BadRequestException ''At least one field must be provided for update''), ex_world)"
  using update_all_unset[of ex_empty_update ex_id "''user-123''" ex_world]
  by (simp add: ex_empty_update_def)

section \<open>Errors of the cache\<close>

text \<open>
  C6 (as amended). An error of the cache is fatal to the request, like an error of the
  store. When the cache read rejects, \<^verbatim>\<open>findOne\<close>, \<^verbatim>\<open>findAll\<close>, \<^verbatim>\<open>remove\<close> and an
  \<^verbatim>\<open>update\<close> with a field fail with that error; when the read misses and the cache
  write rejects, \<^verbatim>\<open>findOne\<close> and \<^verbatim>\<open>findAll\<close> fail with it although the store
  answered; when the store is down, \<^verbatim>\<open>findOne\<close> on a miss fails with the store's
  error. An error of the cache is answered with status 500.
\<close>

theorem cache_errors_propagate:
  "(OpGet \<in> cacheFaults s \<longrightarrow>
      fst (findOne ident s) = Inl CacheError \<and> fst (findAll q s) = Inl CacheError
    \<and> fst (remove ident userId s) = Inl CacheError
    \<and> (hasFields dto \<longrightarrow> fst (update ident dto userId s) = Inl CacheError))
 \<and> (OpGet \<notin> cacheFaults s \<and> OpSet \<in> cacheFaults s \<and> \<not> storeDown s
      \<and> cache s (article_cacheKey ident) = None \<and> find_row ident (rows s) = Some a \<longrightarrow>
      fst (findOne ident s) = Inl CacheError)
 \<and> (OpGet \<notin> cacheFaults s \<and> OpSet \<in> cacheFaults s \<and> \<not> storeDown s
      \<and> cache s (list_cacheKey q) = None
      \<and> 1 \<le> f_page (destructure q) \<and> 1 \<le> f_limit (destructure q) \<longrightarrow>
      fst (findAll q s) = Inl CacheError)
 \<and> (OpGet \<notin> cacheFaults s \<and> storeDown s \<and> cache s (article_cacheKey ident) = None \<longrightarrow>
      fst (findOne ident s) = Inl StoreError)
 \<and> http_status CacheError = 500"
  using skip_nonneg[of "f_page (destructure q)" "f_limit (destructure q)"]
  by (simp add: update_def remove_def findAll_def svc_defs getManyAndCount_def
      build_query_skip build_query_take)

theorem cache_errors_propagate_witness:
  "fst (findOne ex_id (ex_world\<lparr>cacheFaults := {OpGet}\<rparr>)) = Inl CacheError
   \<and> fst (findAll [] (ex_world\<lparr>cacheFaults := {OpGet}\<rparr>)) = Inl CacheError
   \<and> fst (remove ex_id ''user-123'' (ex_world\<lparr>cacheFaults := {OpGet}\<rparr>)) = Inl CacheError
   \<and> fst (update ex_id ex_update ''user-123'' (ex_world\<lparr>cacheFaults := {OpGet}\<rparr>)) =
       Inl CacheError
   \<and> fst (findOne ex_id (ex_world\<lparr>cacheFaults := {OpSet}\<rparr>)) = Inl CacheError
   \<and> fst (findAll [] (ex_world\<lparr>cacheFaults := {OpSet}\<rparr>)) = Inl CacheError
   \<and> fst (findOne ex_id (ex_world\<lparr>storeDown := True\<rparr>)) = Inl StoreError"
  using cache_errors_propagate
      [where s = "ex_world\<lparr>cacheFaults := {OpGet}\<rparr>" and ident = ex_id and q = "[]"
         and userId = "''user-123''" and dto = ex_update]
    cache_errors_propagate
      [where s = "ex_world\<lparr>cacheFaults := {OpSet}\<rparr>" and ident = ex_id and q = "[]"
         and a = ex_article]
    cache_errors_propagate
      [where s = "ex_world\<lparr>storeDown := True\<rparr>" and ident = ex_id]
  by (simp add: hasFields_def Object_values_def ex_defs find_row_def destructure_def)

text \<open>
  C6 as stated fails: with the article in a reachable store, a rejected cache read, and
  likewise a rejected cache write after the store has answered, makes \<^verbatim>\<open>findOne\<close>
  fail; the error is not treated as a miss and the write is not skipped.
\<close>

theorem cache_fault_fails_request:
  "\<not> storeDown (ex_world\<lparr>cacheFaults := {OpGet}\<rparr>)
   \<and> find_row ex_id (rows (ex_world\<lparr>cacheFaults := {OpGet}\<rparr>)) = Some ex_article
   \<and> fst (findOne ex_id (ex_world\<lparr>cacheFaults := {OpGet}\<rparr>)) = Inl CacheError
   \<and> \<not> storeDown (ex_world\<lparr>cacheFaults := {OpSet}\<rparr>)
   \<and> find_row ex_id (rows (ex_world\<lparr>cacheFaults := {OpSet}\<rparr>)) = Some ex_article
   \<and> fst (findOne ex_id (ex_world\<lparr>cacheFaults := {OpSet}\<rparr>)) = Inl CacheError
   \<and> trace (snd (findOne ex_id (ex_world\<lparr>cacheFaults := {OpSet}\<rparr>))) =
       [CacheGet (article_cacheKey ex_id), RepoFindOne ex_id,
        CacheSet (article_cacheKey ex_id) (VArticle (with_author [ex_user] ex_article)) 300000]"
  by (simp add: svc_defs ex_world_def ex_article_def find_row_def)

section \<open>Pagination\<close>

text \<open>
  C7. For a query with page \<open>p\<close> and limit \<open>l\<close>, both at least 1, whose key is not in the
  cache of a healthy world, \<^verbatim>\<open>findAll\<close> returns a page whose items are the matching
  rows in order after skipping \<open>(p - 1) * l\<close> of them and taking at most \<open>l\<close>, whose total
  is the count of all matching rows, whose page and limit are \<open>p\<close> and \<open>l\<close>, and whose
  number of pages is the ceiling of total over \<open>l\<close>. In particular page 2 with limit 10
  of 25 matching rows has 10 items, total 25 and 3 pages.
\<close>

theorem pagination:
  assumes "healthy s" and "cache s (list_cacheKey q) = None"
    and "f_page (destructure q) = p" and "f_limit (destructure q) = l"
    and "1 \<le> p" and "1 \<le> l"
  shows "\<exists>r. fst (findAll q s) = Inr (VPage r)
     \<and> data r = map (with_author (users s))
                  (take (nat l) (drop (nat ((p - 1) * l))
                     (ordered_rows (toTimestamp s) (build_query (destructure q)) (rows s))))
     \<and> length (data r) \<le> nat l
     \<and> total' r = length (matching_rows (toTimestamp s) (build_query (destructure q)) (rows s))
     \<and> page r = p \<and> limit r = l
     \<and> totalPages r = Num \<lceil>real (total' r) / real_of_int l\<rceil>
     \<and> (p = 2 \<and> l = 10 \<and> total' r = 25 \<longrightarrow> length (data r) = 10 \<and> totalPages r = Num 3)"
proof -
  let ?r = "page_of q s"
  have l0: "l \<noteq> 0" using assms by simp
  have res: "fst (findAll q s) = Inr (VPage ?r)"
    using findAll_miss[of s q] assms by (simp add: healthy_def)
  have d: "data ?r = map (with_author (users s))
                  (take (nat l) (drop (nat ((p - 1) * l))
                     (ordered_rows (toTimestamp s) (build_query (destructure q)) (rows s))))"
    using assms by (simp add: page_of_def Let_def)
  have t: "total' ?r =
      length (matching_rows (toTimestamp s) (build_query (destructure q)) (rows s))"
    by (simp add: page_of_def Let_def)
  have pl: "page ?r = p" "limit ?r = l" using assms by (simp_all add: page_of_def Let_def)
  have tp: "totalPages ?r = Num \<lceil>real (total' ?r) / real_of_int l\<rceil>"
    using assms l0 by (simp add: page_of_def Let_def Math_ceil_div_ceiling)
  have len: "length (data ?r) \<le> nat l" by (simp add: d)
  have ex: "length (data ?r) = 10 \<and> totalPages ?r = Num 3"
    if "p = 2" "l = 10" "total' ?r = 25"
  proof -
    have "length (data ?r) = 10"
      using that t by (simp add: d length_ordered_rows)
    moreover have "\<lceil>(25::real) / 10\<rceil> = 3" by (simp add: ceiling_eq_iff)
    hence "totalPages ?r = Num 3" using tp that by simp
    ultimately show ?thesis by simp
  qed
  show ?thesis
    using res d t pl tp len ex by blast
qed

theorem pagination_witness:
  "healthy ex_world25
   \<and> cache ex_world25 (list_cacheKey [Page (Some 2), Limit (Some 10)]) = None
   \<and> length (matching_rows (toTimestamp ex_world25)
        (build_query (destructure [Page (Some 2), Limit (Some 10)])) (rows ex_world25)) = 25
   \<and> (\<exists>r. fst (findAll [Page (Some 2), Limit (Some 10)] ex_world25) = Inr (VPage r)
        \<and> length (data r) = 10 \<and> total' r = 25 \<and> page r = 2 \<and> limit r = 10
        \<and> totalPages r = Num 3)"
proof -
  let ?q = "[Page (Some 2), Limit (Some 10)]"
  have h: "healthy ex_world25" "cache ex_world25 (list_cacheKey ?q) = None"
    by (simp_all add: healthy_def ex_world25_def ex_world_def)
  have f: "f_page (destructure ?q) = 2" "f_limit (destructure ?q) = 10"
    by (simp_all add: destructure_def)
  have n: "length (matching_rows (toTimestamp ex_world25) (build_query (destructure ?q))
             (rows ex_world25)) = 25"
    by (simp add: matching_rows_def build_query_def apply_filters_def destructure_def
        truthy_def ex_world25_def ex_world_def)
  show ?thesis
    using pagination[OF h f] h n by auto
qed

section \<open>The predicate of a collection query\<close>

lemma ILIKE_percent:
  "ILIKE t (CHR ''%'' # ps) \<longleftrightarrow> (\<exists>pre post. t = pre @ post \<and> ILIKE post ps)"
proof (induction t)
  case Nil
  then show ?case by simp
next
  case (Cons c cs)
  show ?case
  proof
    assume "ILIKE (c # cs) (CHR ''%'' # ps)"
    then consider "ILIKE (c # cs) ps" | "ILIKE cs (CHR ''%'' # ps)" by auto
    then show "\<exists>pre post. c # cs = pre @ post \<and> ILIKE post ps"
    proof cases
      case 1
      then show ?thesis by (intro exI[of _ "[]"] exI[of _ "c # cs"]) simp
    next
      case 2
      then obtain pre post where "cs = pre @ post" "ILIKE post ps" using Cons.IH by blast
      then show ?thesis by (intro exI[of _ "c # pre"] exI[of _ post]) simp
    qed
  next
    assume "\<exists>pre post. c # cs = pre @ post \<and> ILIKE post ps"
    then obtain pre post where pp: "c # cs = pre @ post" "ILIKE post ps" by blast
    show "ILIKE (c # cs) (CHR ''%'' # ps)"
    proof (cases pre)
      case Nil
      then show ?thesis using pp by simp
    next
      case (Cons d ds)
      then have "cs = ds @ post" using pp by simp
      then have "ILIKE cs (CHR ''%'' # ps)" using Cons.IH pp by blast
      then show ?thesis by simp
    qed
  qed
qed

lemma ILIKE_literal:
  assumes "pattern_free x"
  shows "ILIKE t (x @ ps) \<longleftrightarrow>
           (\<exists>pre post. t = pre @ post \<and> map lower pre = map lower x \<and> ILIKE post ps)"
  using assms
proof (induction x arbitrary: t)
  case Nil
  then show ?case by simp
next
  case (Cons p x)
  then have p: "p \<noteq> CHR ''%''" "p \<noteq> CHR ''_''" "p \<noteq> CHR 0x5C" and x: "pattern_free x"
    by (simp_all add: pattern_free_def)
  show ?case
  proof (cases t)
    case Nil
    then show ?thesis using p by simp
  next
    case (Cons c cs)
    have "ILIKE t ((p # x) @ ps) \<longleftrightarrow> lower c = lower p \<and> ILIKE cs (x @ ps)"
      using p Cons by simp
    also have "\<dots> \<longleftrightarrow> lower c = lower p \<and>
        (\<exists>pre post. cs = pre @ post \<and> map lower pre = map lower x \<and> ILIKE post ps)"
      using Cons.IH[OF x] by simp
    also have "\<dots> \<longleftrightarrow>
        (\<exists>pre post. t = pre @ post \<and> map lower pre = map lower (p # x) \<and> ILIKE post ps)"
    proof
      assume "lower c = lower p \<and>
        (\<exists>pre post. cs = pre @ post \<and> map lower pre = map lower x \<and> ILIKE post ps)"
      then obtain pre post where "lower c = lower p" "cs = pre @ post"
        "map lower pre = map lower x" "ILIKE post ps" by blast
      then show "\<exists>pre post. t = pre @ post \<and> map lower pre = map lower (p # x) \<and> ILIKE post ps"
        using Cons by (intro exI[of _ "c # pre"] exI[of _ post]) simp
    next
      assume "\<exists>pre post. t = pre @ post \<and> map lower pre = map lower (p # x) \<and> ILIKE post ps"
      then obtain pre post where pp: "t = pre @ post" "map lower pre = map lower (p # x)"
        "ILIKE post ps" by blast
      then obtain d ds where "pre = d # ds" by (cases pre) auto
      then show "lower c = lower p \<and>
        (\<exists>pre post. cs = pre @ post \<and> map lower pre = map lower x \<and> ILIKE post ps)"
        using pp Cons by auto
    qed
    finally show ?thesis .
  qed
qed

lemma ILIKE_any: "ILIKE t ''%''"
  by (induction t) simp_all

lemma ILIKE_substring:
  assumes "pattern_free x"
  shows "ILIKE t (CHR ''%'' # x @ ''%'') \<longleftrightarrow> contains_ci t x"
proof -
  have "ILIKE t (CHR ''%'' # x @ ''%'') \<longleftrightarrow>
          (\<exists>pre post. t = pre @ post \<and> ILIKE post (x @ ''%''))"
    by (rule ILIKE_percent)
  also have "\<dots> \<longleftrightarrow> (\<exists>pre mid post. t = pre @ mid @ post \<and> map lower mid = map lower x)"
    using ILIKE_literal[OF assms, of _ "''%''"] ILIKE_any by auto
  also have "\<dots> \<longleftrightarrow> sublist (map lower x) (map lower t)"
  proof
    assume "\<exists>pre mid post. t = pre @ mid @ post \<and> map lower mid = map lower x"
    then obtain pre mid post where "t = pre @ mid @ post" "map lower mid = map lower x"
      by blast
    then have "map lower t = map lower pre @ map lower x @ map lower post" by simp
    then show "sublist (map lower x) (map lower t)" unfolding sublist_def by blast
  next
    assume "sublist (map lower x) (map lower t)"
    then obtain ps ss where "map lower t = ps @ map lower x @ ss"
      unfolding sublist_def by blast
    then obtain pre rest where pr: "t = pre @ rest" "map lower x @ ss = map lower rest"
      by (auto simp: map_eq_append_conv)
    then obtain mid post where "rest = mid @ post" "map lower mid = map lower x"
      by (auto simp: append_eq_map_conv)
    then show "\<exists>pre mid post. t = pre @ mid @ post \<and> map lower mid = map lower x"
      using pr by blast
  qed
  finally show ?thesis by (simp add: contains_ci_def)
qed

lemma truthy_valid: "v \<noteq> Some [] \<Longrightarrow> truthy v = v"
  by (cases v) (auto simp: truthy_def)

lemma contains_ci_empty: "contains_ci t []"
  by (simp add: contains_ci_def)

lemma where_conditions:
  "list_all (matches ts a) (qb_where (build_query f)) \<longleftrightarrow>
      ((case truthy (f_authorId f) of None \<Rightarrow> True | Some x \<Rightarrow> authorId a = x)
    \<and> (case truthy (f_fromDate f) of None \<Rightarrow> True
        | Some d \<Rightarrow> ts d \<le> ts (publicationDate a))
    \<and> (case truthy (f_toDate f) of None \<Rightarrow> True
        | Some d \<Rightarrow> ts (publicationDate a) \<le> ts d)
    \<and> (case truthy (f_search f) of None \<Rightarrow> True
        | Some x \<Rightarrow> ILIKE (title a) (CHR ''%'' # x @ ''%'')
                  \<or> ILIKE (description a) (CHR ''%'' # x @ ''%'')))"
  by (simp add: build_query_def apply_filters_def andWhere_def Let_def del: ILIKE.simps
      split: option.splits)

lemma where_semantics:
  assumes "valid_filters f" and "\<forall>x. f_search f = Some x \<longrightarrow> pattern_free x"
  shows "list_all (matches ts a) (qb_where (build_query f)) \<longleftrightarrow> spec_predicate ts f a"
proof -
  have s: "(case truthy (f_search f) of None \<Rightarrow> True
            | Some x \<Rightarrow> ILIKE (title a) (CHR ''%'' # x @ ''%'')
                      \<or> ILIKE (description a) (CHR ''%'' # x @ ''%''))
        \<longleftrightarrow> (case f_search f of None \<Rightarrow> True
            | Some x \<Rightarrow> contains_ci (title a) x \<or> contains_ci (description a) x)"
  proof (cases "f_search f")
    case None
    then show ?thesis by (simp add: truthy_def)
  next
    case (Some x)
    then have "pattern_free x" using assms by simp
    then show ?thesis using Some
      by (cases "x = []")
        (simp_all add: truthy_def contains_ci_empty ILIKE_substring del: ILIKE.simps)
  qed
  show ?thesis
    using assms(1) s
    by (simp add: where_conditions spec_predicate_def valid_filters_def truthy_valid
        del: ILIKE.simps)
qed

text \<open>
  C8 (as amended). A row is selected by the built query exactly when it satisfies every
  condition that applies: author equality when \<^verbatim>\<open>authorId\<close> is present and not
  empty; publication date at or after \<^verbatim>\<open>fromDate\<close> and at or before \<^verbatim>\<open>toDate\<close>, for
  each of the two that is present and not empty (the closed interval when both are);
  title or description matching the \<^verbatim>\<open>ILIKE\<close> pattern \<^verbatim>\<open>%search%\<close> when \<^verbatim>\<open>search\<close> is
  present and not empty. For filters whose identifier and dates are not empty strings
  and whose search text has none of the pattern characters \<^verbatim>\<open>%\<close>, \<^verbatim>\<open>_\<close> and the
  reverse solidus, this is the predicate of the specification, with a case-insensitive
  substring match of the search text.
\<close>

theorem store_predicate:
  "(a \<in> set (matching_rows ts (build_query f) rs) \<longleftrightarrow>
      a \<in> set rs
    \<and> (case truthy (f_authorId f) of None \<Rightarrow> True | Some x \<Rightarrow> authorId a = x)
    \<and> (case truthy (f_fromDate f) of None \<Rightarrow> True
        | Some d \<Rightarrow> ts d \<le> ts (publicationDate a))
    \<and> (case truthy (f_toDate f) of None \<Rightarrow> True
        | Some d \<Rightarrow> ts (publicationDate a) \<le> ts d)
    \<and> (case truthy (f_search f) of None \<Rightarrow> True
        | Some x \<Rightarrow> ILIKE (title a) (CHR ''%'' # x @ ''%'')
                  \<or> ILIKE (description a) (CHR ''%'' # x @ ''%'')))
 \<and> (valid_filters f \<and> (\<forall>x. f_search f = Some x \<longrightarrow> pattern_free x) \<longrightarrow>
      matching_rows ts (build_query f) rs = filter (spec_predicate ts f) rs)"
proof -
  have general: "a \<in> set (matching_rows ts (build_query f) rs) \<longleftrightarrow>
      a \<in> set rs \<and> list_all (matches ts a) (qb_where (build_query f))"
    by (simp add: matching_rows_def)
  have special: "matching_rows ts (build_query f) rs = filter (spec_predicate ts f) rs"
    if "valid_filters f" "\<forall>x. f_search f = Some x \<longrightarrow> pattern_free x"
    using where_semantics[OF that] by (simp add: matching_rows_def)
  show ?thesis
    using general special by (simp only: where_conditions) blast
qed

theorem store_predicate_witness:
  "valid_filters (destructure [Search (Some ''test art''), FromDate (Some ''2024-01-01'')])
   \<and> pattern_free ''test art''
   \<and> matching_rows ex_timestamp
       (build_query (destructure [Search (Some ''test art''), FromDate (Some ''2024-01-01'')]))
       [ex_article]
     = filter (spec_predicate ex_timestamp
                (destructure [Search (Some ''test art''), FromDate (Some ''2024-01-01'')]))
         [ex_article]
   \<and> filter (spec_predicate ex_timestamp
                (destructure [Search (Some ''test art''), FromDate (Some ''2024-01-01'')]))
         [ex_article] = [ex_article]
   \<and> ex_article \<in> set (matching_rows ex_timestamp
        (build_query (destructure [AuthorId (Some []), ToDate (Some ''2024-01-01'')]))
        [ex_article])
   \<and> ex_article \<notin> set (matching_rows ex_timestamp
        (build_query (destructure [ToDate (Some ''2023-12-31'')])) [ex_article])"
  using store_predicate
      [of ex_article ex_timestamp
          "destructure [Search (Some ''test art''), FromDate (Some ''2024-01-01'')]"
          "[ex_article]"]
    store_predicate
      [of ex_article ex_timestamp
          "destructure [AuthorId (Some []), ToDate (Some ''2024-01-01'')]" "[ex_article]"]
    store_predicate
      [of ex_article ex_timestamp "destructure [ToDate (Some ''2023-12-31'')]" "[ex_article]"]
  by (simp add: valid_filters_def pattern_free_def destructure_def spec_predicate_def
      contains_ci_def lower_def truthy_def ex_article_def ex_timestamp_def)

text \<open>
  C8 as stated fails for a search text with a pattern character: the text is put into
  the \<^verbatim>\<open>ILIKE\<close> pattern as it is. The search \<^verbatim>\<open>_\<close> selects the example article,
  although neither its title nor its description contains an underscore.
\<close>

theorem search_pattern_characters:
  "matching_rows ex_timestamp (build_query (destructure [Search (Some ''_'')])) [ex_article]
     = [ex_article]
   \<and> \<not> contains_ci (title ex_article) ''_''
   \<and> \<not> contains_ci (description ex_article) ''_''
   \<and> filter (spec_predicate ex_timestamp (destructure [Search (Some ''_'')])) [ex_article] = []"
  by (simp add: matching_rows_def build_query_def apply_filters_def andWhere_def
      destructure_def truthy_def spec_predicate_def contains_ci_def lower_def ex_article_def
      sublist_Cons_right)

section \<open>Invalidation\<close>

text \<open>
  C9. A successful \<^verbatim>\<open>update\<close> or \<^verbatim>\<open>remove\<close> leaves the cache as it was except that
  the entry of the key \<^verbatim>\<open>article:{id}\<close> is gone; every cached page of a collection
  query is still there. The deletion is the last call of the operation and follows the
  store mutation; before them come only the cache read of \<^verbatim>\<open>findOne\<close> and, on a miss,
  its store lookup and cache write.
\<close>

theorem invalidation_frame:
  "(update ident dto userId s = (Inr r, s') \<longrightarrow>
      cache s' = (cache s)(article_cacheKey ident := None)
    \<and> (\<forall>k p t. cache s k = Some (VPage p, t) \<longrightarrow> cache s' k = Some (VPage p, t))
    \<and> (\<exists>mid. trace s' = trace s @ mid @ [RepoSave r, CacheDel (article_cacheKey ident)]
         \<and> (mid = [CacheGet (article_cacheKey ident)]
            \<or> (\<exists>v. mid = [CacheGet (article_cacheKey ident), RepoFindOne ident,
                           CacheSet (article_cacheKey ident) v 300000]))))
 \<and> (remove ident userId s = (Inr u, s'') \<longrightarrow>
      cache s'' = (cache s)(article_cacheKey ident := None)
    \<and> (\<forall>k p t. cache s k = Some (VPage p, t) \<longrightarrow> cache s'' k = Some (VPage p, t))
    \<and> (\<exists>mid a. trace s'' = trace s @ mid @ [RepoRemove a, CacheDel (article_cacheKey ident)]
         \<and> (mid = [CacheGet (article_cacheKey ident)]
            \<or> (\<exists>v. mid = [CacheGet (article_cacheKey ident), RepoFindOne ident,
                           CacheSet (article_cacheKey ident) v 300000]))))"
  apply (rule conjI)
   apply (auto simp: update_def svc_defs split: if_splits option.splits jsvalue.splits)[1]
  apply (auto simp: remove_def svc_defs split: if_splits option.splits jsvalue.splits)[1]
  done

theorem invalidation_frame_witness:
  "fst (update ex_id ex_update ''user-123'' ex_paged) =
       Inr (Object_assign (with_author [ex_user] ex_article) ex_update)
   \<and> cache ex_paged (article_cacheKey ex_id) =
       Some (VArticle (with_author [ex_user] ex_article), 300000)
   \<and> cache (snd (update ex_id ex_update ''user-123'' ex_paged)) (article_cacheKey ex_id) = None
   \<and> cache (snd (update ex_id ex_update ''user-123'' ex_paged)) (list_cacheKey []) =
       Some (VPage (page_of [] ex_world), 300000)
   \<and> trace (snd (update ex_id ex_update ''user-123'' ex_paged)) =
       [CacheGet (article_cacheKey ex_id),
        RepoSave (Object_assign (with_author [ex_user] ex_article) ex_update),
        CacheDel (article_cacheKey ex_id)]
   \<and> fst (remove ex_id ''user-123'' ex_paged) = Inr ()
   \<and> cache (snd (remove ex_id ''user-123'' ex_paged)) (article_cacheKey ex_id) = None
   \<and> cache (snd (remove ex_id ''user-123'' ex_paged)) (list_cacheKey []) =
       Some (VPage (page_of [] ex_world), 300000)
   \<and> trace (snd (remove ex_id ''user-123'' ex_paged)) =
       [CacheGet (article_cacheKey ex_id), RepoRemove (with_author [ex_user] ex_article),
        CacheDel (article_cacheKey ex_id)]"
  using invalidation_frame
    [where ident = ex_id and dto = ex_update and userId = "''user-123''" and s = ex_paged
       and r = "Object_assign (with_author [ex_user] ex_article) ex_update"
       and s' = "snd (update ex_id ex_update ''user-123'' ex_paged)"
       and u = "()" and s'' = "snd (remove ex_id ''user-123'' ex_paged)"]
  by (simp add: update_def remove_def svc_defs hasFields_def Object_values_def
      ex_paged_def ex_defs with_author_def json_defs article_cacheKey_def)

section \<open>\<^verbatim>\<open>create\<close>\<close>

text \<open>
  C10 (as amended). With the store reachable and a fresh generated identifier,
  \<^verbatim>\<open>create\<close> persists a row whose author is the requester and returns that article
  joined with its author. If, when the article is read again, the store has no row of
  its identifier, the operation fails with \<^verbatim>\<open>NotFoundException\<close> (message
  \<^verbatim>\<open>Article with ID ... not found after creation\<close>), which is answered with status
  404 like any other not-found; if the row is there, the operation returns it joined
  with its author.
\<close>

theorem create_write_then_reread:
  "(\<not> storeDown s \<and> find_row (uuid_gen s (uuid_next s)) (rows s) = None \<longrightarrow>
      fst (create dto userId s) =
        Inr (with_author (users s) (new_entity (uuid_gen s (uuid_next s)) dto userId))
    \<and> find_row (uuid_gen s (uuid_next s)) (rows (snd (create dto userId s))) =
        Some (new_entity (uuid_gen s (uuid_next s)) dto userId)
    \<and> authorId (new_entity (uuid_gen s (uuid_next s)) dto userId) = userId)
 \<and> (\<not> storeDown sr \<and> find_row (article_id saved) (rows sr) = None \<longrightarrow>
      fst (create_reread saved sr) =
        Inl (NotFoundException
              (''Article with ID '' @ article_id saved @ '' not found after creation''))
    \<and> http_status (NotFoundException
          (''Article with ID '' @ article_id saved @ '' not found after creation'')) = 404)
 \<and> (\<not> storeDown sr \<and> find_row (article_id saved) (rows sr) = Some row \<longrightarrow>
      fst (create_reread saved sr) = Inr (with_author (users sr) row))"
  by (simp add: create_def create_reread_def repo_insert_def repo_findOne_def io_defs Let_def
      find_row_snoc new_entity_def)

theorem create_write_then_reread_witness:
  "\<not> storeDown ex_world
   \<and> find_row (uuid_gen ex_world (uuid_next ex_world)) (rows ex_world) = None
   \<and> fst (create ex_create ''user-123'' ex_world) =
       Inr (with_author [ex_user] (new_entity ''generated-0'' ex_create ''user-123''))
   \<and> find_row ''generated-0'' (rows (snd (create ex_create ''user-123'' ex_world))) =
       Some (new_entity ''generated-0'' ex_create ''user-123'')
   \<and> find_row ''generated-0'' (rows ex_world) = None
   \<and> fst (create_reread (new_entity ''generated-0'' ex_create ''user-123'') ex_world) =
       Inl (NotFoundException ''Article with ID generated-0 not found after creation'')
   \<and> find_row ex_id (rows ex_world) = Some ex_article
   \<and> fst (create_reread ex_article ex_world) = Inr (with_author [ex_user] ex_article)"
  using create_write_then_reread
      [where s = ex_world and dto = ex_create and userId = "''user-123''"
         and sr = ex_world and saved = "new_entity ''generated-0'' ex_create ''user-123''"]
    create_write_then_reread
      [where s = ex_world and sr = ex_world and saved = ex_article and row = ex_article]
  by (simp add: ex_world_def ex_article_def ex_id_def find_row_def new_entity_def
      digits.simps)

text \<open>
  C10 as stated fails on the kind of error. Here the row that \<^verbatim>\<open>create\<close> has just
  written is removed by another request before \<^verbatim>\<open>create\<close> reads it again; the
  re-read then ends in \<^verbatim>\<open>NotFoundException\<close>, the exception of a missing article
  (status 404), and not in an internal error (status 500).
\<close>

theorem reread_miss_is_NotFound:
  "fst (repo_insert ex_create ''user-123'' ex_world) =
       Inr (new_entity ''generated-0'' ex_create ''user-123'')
   \<and> fst (remove ''generated-0'' ''user-123''
             (snd (repo_insert ex_create ''user-123'' ex_world))) = Inr ()
   \<and> fst (create_reread (new_entity ''generated-0'' ex_create ''user-123'')
             (snd (remove ''generated-0'' ''user-123''
                     (snd (repo_insert ex_create ''user-123'' ex_world))))) =
       Inl (NotFoundException ''Article with ID generated-0 not found after creation'')
   \<and> http_status (NotFoundException ''Article with ID generated-0 not found after creation'')
       = 404
   \<and> http_status (NotFoundException ''Article with ID generated-0 not found after creation'')
       \<noteq> 500
   \<and> fst (findOne ''generated-0'' ex_world) =
       Inl (NotFoundException ''Article with ID generated-0 not found'')"
  by (simp add: create_reread_def repo_insert_def remove_def svc_defs ex_defs find_row_def
      new_entity_def with_author_def article_cacheKey_def digits.simps)

end
